theory Spec2Isabelle
  imports Complex_Main "HOL-Library.Word"
begin

section \<open>DEM terrain tile geometry: buffers and ray intersection\<close>

text \<open>
  A shallow embedding of \<^verbatim>\<open>src/3d/terrain/qgsdemterraintilegeometry_p.cpp\<close>:
  \<^verbatim>\<open>createPlaneVertexData\<close>, \<^verbatim>\<open>ijToHeightMapIndex\<close>, \<^verbatim>\<open>hasNoData\<close>,
  \<^verbatim>\<open>createPlaneIndexData\<close>, the two buffer functors with their \<^verbatim>\<open>operator==\<close>, and
  \<^verbatim>\<open>intersectionDemTriangles\<close>.

  \<^item> A \<^verbatim>\<open>QByteArray\<close> holding floats is a list of floats, one holding \<^verbatim>\<open>quint32\<close> values a
    list of \<open>32 word\<close>; its byte count is four times the length of the list.
  \<^item> \<^verbatim>\<open>int\<close> values are HOL integers; where the source computes a size in a 32-bit type the
    model checks the range (signed overflow is an error) or wraps (unsigned arithmetic).
  \<^item> \<^verbatim>\<open>Q_ASSERT\<close> is a check that fails with \<open>AssertFailed\<close>, as in a build that has
    assertions.
  \<^item> A read through a raw pointer beyond the end of its buffer has no defined value in C++;
    the model makes what is found there a parameter \<open>past\<close> (offset to value), so that
    every theorem holds whatever lies behind the buffer. A write beyond the end of the
    allocated buffer is the error \<open>BufferOverrun\<close>.
  \<^item> \<^verbatim>\<open>float\<close> is a type parameter \<open>'f\<close> with its operations in a record: no property of
    rounding is used anywhere, and the few facts about NaN and comparison that a theorem
    needs are its hypotheses.
\<close>

subsection \<open>Machine integers\<close>

datatype error = AssertFailed | SignedOverflow | BufferOverrun | Indeterminate

text \<open>The range of \<^verbatim>\<open>int\<close>, the value of an integer converted to \<^verbatim>\<open>quint32\<close>, and the value
  of an integer converted to \<^verbatim>\<open>int\<close> (two's complement).\<close>

definition fits_int :: "int \<Rightarrow> bool" where
  "fits_int x = (- (2 ^ 31) \<le> x \<and> x < 2 ^ 31)"

definition to_uint :: "int \<Rightarrow> int" where
  "to_uint x = x mod 2 ^ 32"

definition to_int :: "int \<Rightarrow> int" where
  "to_int x = (x + 2 ^ 31) mod 2 ^ 32 - 2 ^ 31"

text \<open>\<^verbatim>\<open>qBound( min, val, max )\<close> of QtGlobal is \<^verbatim>\<open>qMax( min, qMin( max, val ) )\<close>.\<close>

definition qBound :: "int \<Rightarrow> int \<Rightarrow> int \<Rightarrow> int" where
  "qBound mn val mx = max mn (min mx val)"

text \<open>\<^verbatim>\<open>QByteArray::resize( int size )\<close> (Qt 5, whose \<^verbatim>\<open>count()\<close> is an \<^verbatim>\<open>int\<close>): the number of
  bytes of the array afterwards; a negative size gives the empty array.\<close>

definition QByteArray_resize :: "int \<Rightarrow> nat" where
  "QByteArray_resize n = nat (max 0 n)"

text \<open>\<^verbatim>\<open>p[k]\<close> for a pointer \<open>p\<close> to the first element of \<open>buf\<close>.\<close>

definition peek :: "'a list \<Rightarrow> (int \<Rightarrow> 'a) \<Rightarrow> int \<Rightarrow> 'a" where
  "peek buf past k = (if 0 \<le> k \<and> k < int (length buf) then buf ! nat k else past k)"

subsection \<open>Floats\<close>

text \<open>The operations of \<^verbatim>\<open>float\<close> that the file uses. \<open>f_of_int\<close> is the conversion of an
  \<^verbatim>\<open>int\<close> (also of the literals \<^verbatim>\<open>0.0f\<close>, \<^verbatim>\<open>1.0f\<close>, \<^verbatim>\<open>2.0f\<close>), \<open>f_inv_double n\<close> is
  \<^verbatim>\<open>1.0 / n\<close> formed in \<^verbatim>\<open>double\<close> and then converted to \<^verbatim>\<open>float\<close>, \<open>f_eq\<close> and \<open>f_lt\<close>
  are \<^verbatim>\<open>==\<close> and \<^verbatim>\<open><\<close>.\<close>

record 'f float_ops =
  f_of_int :: "int \<Rightarrow> 'f"
  f_neg :: "'f \<Rightarrow> 'f"
  f_add :: "'f \<Rightarrow> 'f \<Rightarrow> 'f"
  f_sub :: "'f \<Rightarrow> 'f \<Rightarrow> 'f"
  f_mul :: "'f \<Rightarrow> 'f \<Rightarrow> 'f"
  f_div :: "'f \<Rightarrow> 'f \<Rightarrow> 'f"
  f_inv_double :: "int \<Rightarrow> 'f"
  f_isnan :: "'f \<Rightarrow> bool"
  f_eq :: "'f \<Rightarrow> 'f \<Rightarrow> bool"
  f_lt :: "'f \<Rightarrow> 'f \<Rightarrow> bool"

type_synonym 'f vec3 = "'f \<times> 'f \<times> 'f"


subsection \<open>createPlaneVertexData\<close>

text \<open>The footprint: \<^verbatim>\<open>w = h = 1\<close> and \<^verbatim>\<open>resolution = QSize( res, res )\<close>, so \<^verbatim>\<open>x0\<close> and \<^verbatim>\<open>z0\<close>,
  \<^verbatim>\<open>dx\<close> and \<^verbatim>\<open>dz\<close>, \<^verbatim>\<open>du\<close> and \<^verbatim>\<open>dv\<close> are the same expressions.\<close>

definition plane_x0 :: "'f float_ops \<Rightarrow> 'f" where
  "plane_x0 ops = f_div ops (f_neg ops (f_of_int ops 1)) (f_of_int ops 2)"

definition plane_dx :: "'f float_ops \<Rightarrow> int \<Rightarrow> 'f" where
  "plane_dx ops res = f_div ops (f_of_int ops 1) (f_of_int ops (res - 1))"

definition plane_du :: "'f float_ops \<Rightarrow> int \<Rightarrow> 'f" where
  "plane_du ops res = f_inv_double ops (res - 1)"

text \<open>The body of the inner loop at row \<open>j\<close> and column \<open>i\<close> of the padded range, with \<open>k\<close>
  the number of samples that \<^verbatim>\<open>zBits\<close> has passed: the eight floats written through
  \<^verbatim>\<open>fptr\<close>.\<close>

definition planeVertex ::
  "'f float_ops \<Rightarrow> int \<Rightarrow> 'f \<Rightarrow> 'f list \<Rightarrow> int \<Rightarrow> int \<Rightarrow> nat \<Rightarrow> 'f list" where
  "planeVertex ops res skirtHeight heights j i k =
     (let noDataHeight = f_of_int ops 0;
          jBound = qBound 0 j (res - 1);
          z = f_add ops (plane_x0 ops) (f_mul ops (f_of_int ops jBound) (plane_dx ops res));
          v = f_mul ops (f_of_int ops jBound) (plane_du ops res);
          iBound = qBound 0 i (res - 1);
          x = f_add ops (plane_x0 ops) (f_mul ops (f_of_int ops iBound) (plane_dx ops res));
          u = f_mul ops (f_of_int ops iBound) (plane_du ops res);
          height = (if i = iBound \<and> j = jBound then heights ! k
                    else f_sub ops (heights ! nat (jBound * res + iBound)) skirtHeight);
          height' = (if f_isnan ops height then noDataHeight else height)
      in [x, height', z, u, v, f_of_int ops 0, f_of_int ops 1, f_of_int ops 0])"

text \<open>One pass of the inner loop body on the state (\<^verbatim>\<open>zBits - zData\<close>, floats written so
  far): \<^verbatim>\<open>*zBits++\<close> moves on exactly when neither coordinate is clamped.\<close>

definition vertexStep ::
  "'f float_ops \<Rightarrow> int \<Rightarrow> 'f \<Rightarrow> 'f list \<Rightarrow> int \<Rightarrow> int \<Rightarrow> nat \<times> 'f list \<Rightarrow> nat \<times> 'f list" where
  "vertexStep ops res skirtHeight heights j i st =
     (if i = qBound 0 i (res - 1) \<and> j = qBound 0 j (res - 1)
      then (Suc (fst st), snd st @ planeVertex ops res skirtHeight heights j i (fst st))
      else (fst st, snd st @ planeVertex ops res skirtHeight heights j i (fst st)))"

definition vertexLoop :: "'f float_ops \<Rightarrow> int \<Rightarrow> 'f \<Rightarrow> 'f list \<Rightarrow> nat \<times> 'f list" where
  "vertexLoop ops res skirtHeight heights =
     fold (\<lambda>j. fold (vertexStep ops res skirtHeight heights j) [-1..res]) [-1..res] (0, [])"

definition createPlaneVertexData ::
  "'f float_ops \<Rightarrow> int \<Rightarrow> 'f \<Rightarrow> 'f list \<Rightarrow> error + 'f list" where
  "createPlaneVertexData ops res skirtHeight heights =
     (if \<not> 2 \<le> res then Inl AssertFailed
      else if \<not> fits_int (res * res * 4) then Inl SignedOverflow
      else if 4 * int (length heights) \<noteq> res * res * 4 then Inl AssertFailed
      else if \<not> fits_int ((res + 2) * (res + 2)) then Inl SignedOverflow
      else
        let nVerts = (res + 2) * (res + 2);
            stride = 8 * 4;
            bufferBytes = QByteArray_resize (to_int (to_uint (stride * nVerts)));
            written = snd (vertexLoop ops res skirtHeight heights)
        in if bufferBytes < 4 * length written then Inl BufferOverrun
           else if 4 * length written < bufferBytes then Inl Indeterminate
           else Inr written)"

text \<open>The reference builder of the specification, which takes the height of an interior
  vertex by direct row-major indexing, \<^verbatim>\<open>heights[j * res + i]\<close>, instead of walking a
  pointer.\<close>

definition createPlaneVertexData_direct ::
  "'f float_ops \<Rightarrow> int \<Rightarrow> 'f \<Rightarrow> 'f list \<Rightarrow> error + 'f list" where
  "createPlaneVertexData_direct ops res skirtHeight heights =
     (if \<not> 2 \<le> res then Inl AssertFailed
      else if \<not> fits_int (res * res * 4) then Inl SignedOverflow
      else if 4 * int (length heights) \<noteq> res * res * 4 then Inl AssertFailed
      else if \<not> fits_int ((res + 2) * (res + 2)) then Inl SignedOverflow
      else
        let nVerts = (res + 2) * (res + 2);
            stride = 8 * 4;
            bufferBytes = QByteArray_resize (to_int (to_uint (stride * nVerts)));
            written = concat (map (\<lambda>j. concat (map (\<lambda>i.
                        planeVertex ops res skirtHeight heights j i (nat (j * res + i)))
                        [-1..res])) [-1..res])
        in if bufferBytes < 4 * length written then Inl BufferOverrun
           else if 4 * length written < bufferBytes then Inl Indeterminate
           else Inr written)"

text \<open>Float \<open>s\<close> (0 to 7: x, height, z, u, v, normal) of the vertex written at row \<open>j\<close> and
  column \<open>i\<close> of the padded range \<open>-1 .. res\<close>.\<close>

definition vertexFloat :: "int \<Rightarrow> 'f list \<Rightarrow> int \<Rightarrow> int \<Rightarrow> nat \<Rightarrow> 'f" where
  "vertexFloat res buf j i s = buf ! (8 * (nat (j + 1) * nat (res + 2) + nat (i + 1)) + s)"

subsection \<open>createPlaneIndexData\<close>

definition ijToHeightMapIndex :: "int \<Rightarrow> int \<Rightarrow> int \<Rightarrow> int \<Rightarrow> int" where
  "ijToHeightMapIndex i j numVerticesX numVerticesZ =
     (let i' = qBound 1 i (numVerticesX - 1) - 1;
          j' = qBound 1 j (numVerticesZ - 1) - 1
      in j' * (numVerticesX - 2) + i')"

definition hasNoData ::
  "'f float_ops \<Rightarrow> int \<Rightarrow> int \<Rightarrow> 'f list \<Rightarrow> (int \<Rightarrow> 'f) \<Rightarrow> int \<Rightarrow> int \<Rightarrow> bool" where
  "hasNoData ops i j heightMap past numVerticesX numVerticesZ =
     (f_isnan ops (peek heightMap past (ijToHeightMapIndex i j numVerticesX numVerticesZ)) \<or>
      f_isnan ops (peek heightMap past (ijToHeightMapIndex (i + 1) j numVerticesX numVerticesZ)) \<or>
      f_isnan ops (peek heightMap past (ijToHeightMapIndex i (j + 1) numVerticesX numVerticesZ)) \<or>
      f_isnan ops (peek heightMap past (ijToHeightMapIndex (i + 1) (j + 1) numVerticesX numVerticesZ)))"

text \<open>The body of the inner loop: the six indices written through \<^verbatim>\<open>indexPtr\<close> for the
  cell at row \<open>j\<close> and column \<open>i\<close>.\<close>

definition cellIndices ::
  "'f float_ops \<Rightarrow> 'f list \<Rightarrow> (int \<Rightarrow> 'f) \<Rightarrow> int \<Rightarrow> int \<Rightarrow> int \<Rightarrow> int \<Rightarrow> 32 word list" where
  "cellIndices ops heightMap past numVerticesX numVerticesZ j i =
     (let rowStartIndex = j * numVerticesX;
          nextRowStartIndex = (j + 1) * numVerticesX
      in if hasNoData ops i j heightMap past numVerticesX numVerticesZ
         then [word_of_int (rowStartIndex + i), word_of_int (rowStartIndex + i),
               word_of_int (rowStartIndex + i),
               word_of_int (rowStartIndex + i), word_of_int (rowStartIndex + i),
               word_of_int (rowStartIndex + i)]
         else [word_of_int (rowStartIndex + i), word_of_int (nextRowStartIndex + i),
               word_of_int (rowStartIndex + i + 1),
               word_of_int (nextRowStartIndex + i), word_of_int (nextRowStartIndex + i + 1),
               word_of_int (rowStartIndex + i + 1)])"

definition indexLoop ::
  "'f float_ops \<Rightarrow> 'f list \<Rightarrow> (int \<Rightarrow> 'f) \<Rightarrow> int \<Rightarrow> int \<Rightarrow> 32 word list" where
  "indexLoop ops heightMap past numVerticesX numVerticesZ =
     fold (\<lambda>j. fold (\<lambda>i out. out @ cellIndices ops heightMap past numVerticesX numVerticesZ j i)
                 [0..numVerticesX - 2])
          [0..numVerticesZ - 2] []"

definition createPlaneIndexData ::
  "'f float_ops \<Rightarrow> int \<Rightarrow> 'f list \<Rightarrow> (int \<Rightarrow> 'f) \<Rightarrow> error + 32 word list" where
  "createPlaneIndexData ops res heightMap past =
     (if \<not> fits_int (res + 2) then Inl SignedOverflow
      else
        let numVerticesX = res + 2;
            numVerticesZ = res + 2;
            faces = 2 * (numVerticesX - 1) * (numVerticesZ - 1)
        in if \<not> (fits_int faces \<and> fits_int (3 * faces)) then Inl SignedOverflow
           else
             let indices = to_uint (3 * faces)
             in if \<not> indices < 2 ^ 32 - 1 then Inl AssertFailed
                else
                  let indexBytes = QByteArray_resize (to_int (indices * 4));
                      written = indexLoop ops heightMap past numVerticesX numVerticesZ
                  in if indexBytes < 4 * length written then Inl BufferOverrun
                     else if 4 * length written < indexBytes then Inl Indeterminate
                     else Inr written)"

text \<open>The two triangles of the cell at row \<open>j\<close> and column \<open>i\<close> (both from 0 to \<open>res\<close>) in an
  index buffer, and the test that two triangles have the edge from \<open>a\<close> to \<open>b\<close> in common.\<close>

definition cellTriangle1 :: "int \<Rightarrow> 32 word list \<Rightarrow> int \<Rightarrow> int \<Rightarrow> 32 word list" where
  "cellTriangle1 res buf j i = take 3 (drop (6 * (nat j * nat (res + 1) + nat i)) buf)"

definition cellTriangle2 :: "int \<Rightarrow> 32 word list \<Rightarrow> int \<Rightarrow> int \<Rightarrow> 32 word list" where
  "cellTriangle2 res buf j i = take 3 (drop (6 * (nat j * nat (res + 1) + nat i) + 3) buf)"

definition sharedEdge :: "32 word list \<Rightarrow> 32 word list \<Rightarrow> 32 word \<Rightarrow> 32 word \<Rightarrow> bool" where
  "sharedEdge t1 t2 a b =
     (a \<in> set t1 \<and> b \<in> set t1 \<and> a \<in> set t2 \<and> b \<in> set t2)"

text \<open>The sample that \<^verbatim>\<open>createPlaneVertexData\<close> reads for the vertex at row \<open>j\<close> and column
  \<open>i\<close> of the padded range \<open>-1 .. res\<close> (\<^verbatim>\<open>zData[ jBound * resolution.width() + iBound ]\<close>):
  the interior sample nearest to that vertex.\<close>

definition vertexSampleIndex :: "int \<Rightarrow> int \<Rightarrow> int \<Rightarrow> int" where
  "vertexSampleIndex res j i = qBound 0 j (res - 1) * res + qBound 0 i (res - 1)"

subsection \<open>The buffer functors\<close>

text \<open>A \<^verbatim>\<open>QBufferDataGenerator\<close> is one of the two functors of this file or a generator of
  another class. \<^verbatim>\<open>functor_cast\<close> gives \<^verbatim>\<open>nullptr\<close> for a generator of another class
  than the one asked for. \<^verbatim>\<open>operator()\<close> of the two functors returns
  \<^verbatim>\<open>createPlaneVertexData( mResolution, mSkirtHeight, mHeightMap )\<close> and
  \<^verbatim>\<open>createPlaneIndexData( mResolution, mHeightMap )\<close>. The comparison of two
  \<^verbatim>\<open>QByteArray\<close>s is the equality of their bytes, here of the lists.\<close>

datatype 'f QBufferDataGenerator =
    PlaneVertexBufferFunctor int 'f "'f list"
  | PlaneIndexBufferFunctor int "'f list"
  | OtherGenerator

fun PlaneVertexBufferFunctor_eq ::
  "'f float_ops \<Rightarrow> 'f QBufferDataGenerator \<Rightarrow> 'f QBufferDataGenerator \<Rightarrow> bool" where
  "PlaneVertexBufferFunctor_eq ops (PlaneVertexBufferFunctor mResolution mSkirtHeight mHeightMap)
       (PlaneVertexBufferFunctor oResolution oSkirtHeight oHeightMap) =
     (oResolution = mResolution \<and> f_eq ops oSkirtHeight mSkirtHeight \<and> oHeightMap = mHeightMap)"
| "PlaneVertexBufferFunctor_eq ops this other = False"

fun PlaneIndexBufferFunctor_eq ::
  "'f QBufferDataGenerator \<Rightarrow> 'f QBufferDataGenerator \<Rightarrow> bool" where
  "PlaneIndexBufferFunctor_eq (PlaneIndexBufferFunctor mResolution mHeightMap)
       (PlaneIndexBufferFunctor oResolution oHeightMap) =
     (oResolution = mResolution)"
| "PlaneIndexBufferFunctor_eq this other = False"

subsection \<open>intersectionDemTriangles\<close>

text \<open>The ray and matrix operations that the function calls are declared in
  \<^verbatim>\<open>qgsraycastingutils_p.h\<close> and in Qt, outside this file; they are parameters of the
  model. \<open>rayTriangleIntersection r a b c\<close> is \<open>Some t\<close> when the call returns true and
  sets \<^verbatim>\<open>t\<close> (the barycentric coordinates are not used), \<open>ray_point\<close>, \<open>ray_distance\<close> and
  \<open>ray_projectedDistance\<close> are \<^verbatim>\<open>Ray3D::point\<close>, \<^verbatim>\<open>Ray3D::distance\<close> and
  \<^verbatim>\<open>Ray3D::projectedDistance\<close>, \<open>transform m v\<close> is \<^verbatim>\<open>m * v\<close> for a \<^verbatim>\<open>QMatrix4x4\<close>.\<close>

record ('f, 'r, 'm) ray_ops =
  rayTriangleIntersection :: "'r \<Rightarrow> 'f vec3 \<Rightarrow> 'f vec3 \<Rightarrow> 'f vec3 \<Rightarrow> 'f option"
  ray_point :: "'r \<Rightarrow> 'f \<Rightarrow> 'f vec3"
  ray_distance :: "'r \<Rightarrow> 'f"
  ray_projectedDistance :: "'r \<Rightarrow> 'f vec3 \<Rightarrow> 'f"
  transform :: "'m \<Rightarrow> 'f vec3 \<Rightarrow> 'f vec3"

text \<open>\<^verbatim>\<open>int v = indices[...]\<close> and \<^verbatim>\<open>QVector3D( vertices[v * 8], vertices[v * 8 + 1],
  vertices[v * 8 + 2] )\<close>: the index is converted from \<^verbatim>\<open>uint\<close> to \<^verbatim>\<open>int\<close>. The offsets
  are not checked against the range of \<^verbatim>\<open>int\<close>: an index of \<open>2\<^sup>2\<^sup>8\<close> or more is far
  beyond every buffer.\<close>

definition vertexPosition :: "'f list \<Rightarrow> (int \<Rightarrow> 'f) \<Rightarrow> 32 word \<Rightarrow> 'f vec3" where
  "vertexPosition vertices past w =
     (let v = sint w
      in (peek vertices past (v * 8), peek vertices past (v * 8 + 1),
          peek vertices past (v * 8 + 2)))"

text \<open>The test of triangle \<open>i\<close> in the loop body: the intersection point and its projected
  distance when the ray hits the triangle.\<close>

definition triangleHit ::
  "'f float_ops \<Rightarrow> ('f, 'r, 'm) ray_ops \<Rightarrow> 'f list \<Rightarrow> (int \<Rightarrow> 'f) \<Rightarrow> 32 word list \<Rightarrow> 'r \<Rightarrow> 'm \<Rightarrow>
   nat \<Rightarrow> ('f vec3 \<times> 'f) option" where
  "triangleHit ops rops vertices past indices r worldTransform i =
     (let a = vertexPosition vertices past (indices ! (i * 3));
          b = vertexPosition vertices past (indices ! (i * 3 + 1));
          c = vertexPosition vertices past (indices ! (i * 3 + 2));
          tA = transform rops worldTransform a;
          tB = transform rops worldTransform b;
          tC = transform rops worldTransform c
      in case rayTriangleIntersection rops r tA tB tC of
           None \<Rightarrow> None
         | Some t \<Rightarrow>
             let intersectionPt = ray_point rops r (f_mul ops t (ray_distance rops r));
                 distance = ray_projectedDistance rops r intersectionPt
             in Some (intersectionPt, distance))"

text \<open>The loop body on the state (\<^verbatim>\<open>minDistance\<close>, \<^verbatim>\<open>minIntersectionPt\<close>).\<close>

definition triangleStep ::
  "'f float_ops \<Rightarrow> ('f, 'r, 'm) ray_ops \<Rightarrow> 'f list \<Rightarrow> (int \<Rightarrow> 'f) \<Rightarrow> 32 word list \<Rightarrow> 'r \<Rightarrow> 'm \<Rightarrow>
   nat \<Rightarrow> 'f \<times> 'f vec3 \<Rightarrow> 'f \<times> 'f vec3" where
  "triangleStep ops rops vertices past indices r worldTransform i st =
     (case triangleHit ops rops vertices past indices r worldTransform i of
        None \<Rightarrow> st
      | Some hit \<Rightarrow>
          if f_eq ops (fst st) (f_of_int ops (- 1)) \<or> f_lt ops (snd hit) (fst st)
          then (snd hit, fst hit) else st)"

definition intersectionDemTriangles ::
  "'f float_ops \<Rightarrow> ('f, 'r, 'm) ray_ops \<Rightarrow> 'f list \<Rightarrow> (int \<Rightarrow> 'f) \<Rightarrow> 32 word list \<Rightarrow> 'r \<Rightarrow> 'm \<Rightarrow>
   error + 'f vec3 option" where
  "intersectionDemTriangles ops rops vertexBuf past indexBuf r worldTransform =
     (let vertexCnt = length vertexBuf;
          indexCnt = length indexBuf
      in if vertexCnt mod 8 \<noteq> 0 then Inl AssertFailed
         else if indexCnt mod 3 \<noteq> 0 then Inl AssertFailed
         else
           let triangleCount = indexCnt div 3;
               st = fold (triangleStep ops rops vertexBuf past indexBuf r worldTransform)
                      [0..<triangleCount]
                      (f_of_int ops (- 1), (f_of_int ops 0, f_of_int ops 0, f_of_int ops 0))
           in if \<not> f_eq ops (fst st) (f_of_int ops (- 1)) then Inr (Some (snd st))
              else Inr None)"





subsection \<open>An instance for running the model\<close>

text \<open>An instance of the float operations with exact rational arithmetic and one NaN. It
  is not \<^verbatim>\<open>float\<close>: it never rounds and it has no infinities (a division by zero gives
  NaN). It gives the values of \<^verbatim>\<open>float\<close> on the tiles and rays below, which are chosen for
  that: the resolutions are 2 and 3, and every number that occurs in the builders and in
  the ray test is a binary fraction of a few bits, every divisor is a power of two, and
  no divisor is zero. (At the resolution 11584 the builder returns an error, in which no
  float occurs.)\<close>

datatype xfloat = XNaN | XFin rat

fun x_neg :: "xfloat \<Rightarrow> xfloat" where
  "x_neg (XFin a) = XFin (- a)"
| "x_neg XNaN = XNaN"

fun x_add :: "xfloat \<Rightarrow> xfloat \<Rightarrow> xfloat" where
  "x_add (XFin a) (XFin b) = XFin (a + b)"
| "x_add a b = XNaN"

fun x_sub :: "xfloat \<Rightarrow> xfloat \<Rightarrow> xfloat" where
  "x_sub (XFin a) (XFin b) = XFin (a - b)"
| "x_sub a b = XNaN"

fun x_mul :: "xfloat \<Rightarrow> xfloat \<Rightarrow> xfloat" where
  "x_mul (XFin a) (XFin b) = XFin (a * b)"
| "x_mul a b = XNaN"

fun x_div :: "xfloat \<Rightarrow> xfloat \<Rightarrow> xfloat" where
  "x_div (XFin a) (XFin b) = (if b = 0 then XNaN else XFin (a / b))"
| "x_div a b = XNaN"

fun x_inv :: "int \<Rightarrow> xfloat" where
  "x_inv n = (if n = 0 then XNaN else XFin (1 / of_int n))"

fun x_isnan :: "xfloat \<Rightarrow> bool" where
  "x_isnan XNaN = True"
| "x_isnan (XFin a) = False"

fun x_eq :: "xfloat \<Rightarrow> xfloat \<Rightarrow> bool" where
  "x_eq (XFin a) (XFin b) = (a = b)"
| "x_eq a b = False"

fun x_lt :: "xfloat \<Rightarrow> xfloat \<Rightarrow> bool" where
  "x_lt (XFin a) (XFin b) = (a < b)"
| "x_lt a b = False"

fun x_of_int :: "int \<Rightarrow> xfloat" where
  "x_of_int n = XFin (of_int n)"

definition exact_ops :: "xfloat float_ops" where
  "exact_ops = \<lparr> f_of_int = x_of_int, f_neg = x_neg, f_add = x_add, f_sub = x_sub,
                  f_mul = x_mul, f_div = x_div, f_inv_double = x_inv, f_isnan = x_isnan,
                  f_eq = x_eq, f_lt = x_lt \<rparr>"

text \<open>Two contents of the memory behind a buffer.\<close>

fun zero_past :: "int \<Rightarrow> xfloat" where
  "zero_past k = XFin 0"

fun nan_past :: "int \<Rightarrow> xfloat" where
  "nan_past k = XNaN"

text \<open>Modelled from the spec: \<^verbatim>\<open>QgsRayCastingUtils::Ray3D\<close> and
  \<^verbatim>\<open>QgsRayCastingUtils::rayTriangleIntersection\<close> (\<^verbatim>\<open>qgsraycastingutils_p.h\<close>) are not part
  of the source at hand. The specification calls the test "a standard (externally
  supplied) algorithm that returns barycentric coordinates and a ray parameter \<open>t\<close> on
  hit", the hit point "\<open>origin + t*length*direction\<close>" and the distance the "projected
  distance along the ray from the ray origin". The instance is the standard test of a
  segment against a triangle seen from its front, as in Qt 3D: the ray stands for the
  segment from its origin to \<open>point distance\<close>; with \<open>n = ab \<times> ac\<close> and
  \<open>qp = origin - point distance\<close> the triangle is missed when \<open>d = qp \<bullet> n \<le> 0\<close> (it is seen
  from behind or edge-on, or it has no area) and when one of the three barycentric
  numerators leaves \<open>[0, d]\<close>; the parameter of a hit is \<open>t = (ap \<bullet> n) * (1 / d)\<close>, between
  0 and 1. \<open>point t\<close> is \<open>origin + t * direction\<close> and the projected distance of \<open>p\<close> is
  \<open>((p - origin) \<bullet> direction) / (direction \<bullet> direction)\<close>. A triangle with a NaN coordinate is
  missed. The identity is the only transform.\<close>

type_synonym rvec = "rat \<times> rat \<times> rat"

fun r_add :: "rvec \<Rightarrow> rvec \<Rightarrow> rvec" where
  "r_add (ax, ay, az) (bx, by, bz) = (ax + bx, ay + by, az + bz)"

fun r_sub :: "rvec \<Rightarrow> rvec \<Rightarrow> rvec" where
  "r_sub (ax, ay, az) (bx, by, bz) = (ax - bx, ay - by, az - bz)"

fun r_scale :: "rat \<Rightarrow> rvec \<Rightarrow> rvec" where
  "r_scale t (ax, ay, az) = (t * ax, t * ay, t * az)"

fun r_dot :: "rvec \<Rightarrow> rvec \<Rightarrow> rat" where
  "r_dot (ax, ay, az) (bx, by, bz) = ax * bx + ay * by + az * bz"

fun r_cross :: "rvec \<Rightarrow> rvec \<Rightarrow> rvec" where
  "r_cross (ax, ay, az) (bx, by, bz) = (ay * bz - az * by, az * bx - ax * bz, ax * by - ay * bx)"

record segment =
  origin :: rvec
  direction :: rvec
  len :: rat

fun seg_point :: "segment \<Rightarrow> rat \<Rightarrow> rvec" where
  "seg_point r t = r_add (origin r) (r_scale t (direction r))"

fun seg_hit :: "segment \<Rightarrow> xfloat vec3 \<Rightarrow> xfloat vec3 \<Rightarrow> xfloat vec3 \<Rightarrow> xfloat option" where
  "seg_hit r (XFin ax, XFin ay, XFin az) (XFin bx, XFin by, XFin bz) (XFin cx, XFin cy, XFin cz) =
     (let a = (ax, ay, az);
          ab = r_sub (bx, by, bz) a;
          ac = r_sub (cx, cy, cz) a;
          qp = r_sub (origin r) (seg_point r (len r));
          n = r_cross ab ac;
          d = r_dot qp n;
          ap = r_sub (origin r) a;
          t = r_dot ap n;
          e = r_cross qp ap;
          v = r_dot ac e;
          w = - r_dot ab e
      in if d \<le> 0 then None
         else if t < 0 \<or> d < t then None
         else if v < 0 \<or> d < v then None
         else if w < 0 \<or> d < v + w then None
         else Some (XFin (t * (1 / d))))"
| "seg_hit r a b c = None"

fun x_point :: "segment \<Rightarrow> xfloat \<Rightarrow> xfloat vec3" where
  "x_point r (XFin t) = (case seg_point r t of (px, py, pz) \<Rightarrow> (XFin px, XFin py, XFin pz))"
| "x_point r XNaN = (XNaN, XNaN, XNaN)"

fun x_distance :: "segment \<Rightarrow> xfloat" where
  "x_distance r = XFin (len r)"

fun x_projectedDistance :: "segment \<Rightarrow> xfloat vec3 \<Rightarrow> xfloat" where
  "x_projectedDistance r (XFin px, XFin py, XFin pz) =
     (if r_dot (direction r) (direction r) = 0 then XNaN
      else XFin (r_dot (r_sub (px, py, pz) (origin r)) (direction r) /
                 r_dot (direction r) (direction r)))"
| "x_projectedDistance r p = XNaN"

fun x_transform :: "unit \<Rightarrow> xfloat vec3 \<Rightarrow> xfloat vec3" where
  "x_transform m v = v"

definition segment_ops :: "(xfloat, segment, unit) ray_ops" where
  "segment_ops = \<lparr> rayTriangleIntersection = seg_hit, ray_point = x_point,
                    ray_distance = x_distance, ray_projectedDistance = x_projectedDistance,
                    transform = x_transform \<rparr>"

text \<open>A flat tile of resolution 2 and elevation 5, and the same tile with its first sample
  missing.\<close>

definition flat_tile :: "xfloat list" where
  "flat_tile = [XFin 5, XFin 5, XFin 5, XFin 5]"

definition holed_tile :: "xfloat list" where
  "holed_tile = [XNaN, XFin 5, XFin 5, XFin 5]"

text \<open>The buffers of the flat tile with skirt height 1.\<close>

definition flat_vertices :: "xfloat list" where
  "flat_vertices = snd (vertexLoop exact_ops 2 (XFin 1) flat_tile)"

definition flat_indices :: "32 word list" where
  "flat_indices =
     [0, 4, 1, 4, 5, 1,  1, 5, 2, 5, 6, 2,  2, 6, 3, 6, 7, 3,
      4, 8, 5, 8, 9, 5,  5, 9, 6, 9, 10, 6,  6, 10, 7, 10, 11, 7,
      8, 12, 9, 12, 13, 9,  9, 13, 10, 13, 14, 10,  10, 14, 11, 14, 15, 11]"

text \<open>A ray from height 10 straight down onto the centre of the tile, of length 16; a
  vertex buffer of one vertex, and a content of the memory behind it that looks like two
  more vertices: with them the triangle \<open>(-1, 5, -1)\<close>, \<open>(-1, 5, 3)\<close>, \<open>(3, 5, -1)\<close> faces
  upwards and lies under the ray.\<close>

definition down_ray :: segment where
  "down_ray = \<lparr> origin = (0, 10, 0), direction = (0, - 1, 0), len = 16 \<rparr>"




text \<open>A tile of resolution 3 with a valley between two ridges, its buffers with skirt
  height 2, and a horizontal ray of length 4 at height 6 that enters through the skirt
  on the right, leaves the right ridge, and enters the left ridge.\<close>

definition ridge_tile :: "xfloat list" where
  "ridge_tile = [XFin 7, XFin 5, XFin 7, XFin 7, XFin 5, XFin 7, XFin 7, XFin 5, XFin 7]"

definition ridge_vertices :: "xfloat list" where
  "ridge_vertices = snd (vertexLoop exact_ops 3 (XFin 2) ridge_tile)"

definition ridge_indices :: "32 word list" where
  "ridge_indices =
     [0, 5, 1, 5, 6, 1,  1, 6, 2, 6, 7, 2,  2, 7, 3, 7, 8, 3,  3, 8, 4, 8, 9, 4,
      5, 10, 6, 10, 11, 6,  6, 11, 7, 11, 12, 7,  7, 12, 8, 12, 13, 8,  8, 13, 9, 13, 14, 9,
      10, 15, 11, 15, 16, 11,  11, 16, 12, 16, 17, 12,  12, 17, 13, 17, 18, 13,
      13, 18, 14, 18, 19, 14,
      15, 20, 16, 20, 21, 16,  16, 21, 17, 21, 22, 17,  17, 22, 18, 22, 23, 18,
      18, 23, 19, 23, 24, 19]"


text \<open>A tile of resolution 3 whose samples are all different, and its vertex buffer.\<close>

definition ramp_tile :: "xfloat list" where
  "ramp_tile = [XFin 1, XFin 2, XFin 3, XFin 4, XFin 5, XFin 6, XFin 7, XFin 8, XFin 9]"

definition ramp_vertices :: "xfloat list" where
  "ramp_vertices = snd (vertexLoop exact_ops 3 (XFin 1) ramp_tile)"

definition holed_indices :: "32 word list" where
  "holed_indices =
     [0, 0, 0, 0, 0, 0,  1, 1, 1, 1, 1, 1,  2, 6, 3, 6, 7, 3,
      4, 4, 4, 4, 4, 4,  5, 5, 5, 5, 5, 5,  6, 10, 7, 10, 11, 7,
      8, 12, 9, 12, 13, 9,  9, 13, 10, 13, 14, 10,  10, 14, 11, 14, 15, 11]"

subsection \<open>The position of the sample pointer\<close>

text \<open>The number of samples that \<^verbatim>\<open>zBits\<close> has passed when the loop body of
  \<^verbatim>\<open>createPlaneVertexData\<close> starts at row \<open>j\<close> and column \<open>i\<close>.\<close>

definition consumed :: "int \<Rightarrow> int \<Rightarrow> int \<Rightarrow> nat" where
  "consumed res j i =
     (if j < 0 then 0 else if res \<le> j then nat (res * res) else nat (j * res + qBound 0 i res))"

section \<open>Lists written block by block\<close>

lemma fold_append_concat:
  "fold (\<lambda>x out. out @ f x) xs out = out @ concat (map f xs)"
  by (induction xs arbitrary: out) simp_all

lemma length_concat_map_const:
  "(\<And>x. x \<in> set xs \<Longrightarrow> length (f x) = n) \<Longrightarrow> length (concat (map f xs)) = n * length xs"
  by (induction xs) simp_all

lemma nth_concat_map_const:
  "(\<And>x. x \<in> set xs \<Longrightarrow> length (f x) = n) \<Longrightarrow> a < length xs \<Longrightarrow> b < n \<Longrightarrow>
   concat (map f xs) ! (a * n + b) = f (xs ! a) ! b"
proof (induction xs arbitrary: a)
  case Nil
  then show ?case by simp
next
  case (Cons x xs)
  show ?case
  proof (cases a)
    case 0
    with Cons.prems show ?thesis by (simp add: nth_append)
  next
    case (Suc a')
    have len: "length (f x) = n" using Cons.prems(1) by simp
    have "(f x @ concat (map f xs)) ! (n + (a' * n + b)) = concat (map f xs) ! (a' * n + b)"
      using len by (simp add: nth_append)
    moreover have "concat (map f xs) ! (a' * n + b) = f (xs ! a') ! b"
      using Cons.prems Suc by (intro Cons.IH) auto
    ultimately show ?thesis using Suc by (simp add: add.assoc)
  qed
qed

lemma fold_append_concat_fun:
  "fold (\<lambda>x out. out @ f x) xs = (\<lambda>out. out @ concat (map f xs))"
  by (rule ext) (rule fold_append_concat)

lemma take3_drop:
  "m + 3 \<le> length xs \<Longrightarrow> take 3 (drop m xs) = [xs ! m, xs ! (m + 1), xs ! (m + 2)]"
  by (rule nth_equalityI) (auto simp: nth_Cons split: nat.splits)

section \<open>Machine integers\<close>

lemma to_uint_id: "0 \<le> x \<Longrightarrow> x < 2 ^ 32 \<Longrightarrow> to_uint x = x"
  by (simp add: to_uint_def)

lemma to_int_id: "fits_int x \<Longrightarrow> to_int x = x"
  by (simp add: to_int_def fits_int_def)

lemma sq_le_mono: "0 \<le> a \<Longrightarrow> a \<le> (b::int) \<Longrightarrow> a * a \<le> b * b"
  by (rule mult_mono) simp_all


section \<open>The index buffer\<close>

lemma indexLoop_concat:
  "indexLoop ops hm past nX nZ =
   concat (map (\<lambda>j. concat (map (cellIndices ops hm past nX nZ j) [0..nX - 2])) [0..nZ - 2])"
  unfolding indexLoop_def by (simp add: fold_append_concat_fun fold_append_concat)

lemma length_cellIndices: "length (cellIndices ops hm past nX nZ j i) = 6"
  by (simp add: cellIndices_def Let_def)

lemma length_indexRow:
  "length (concat (map (cellIndices ops hm past nX nZ j) [0..nX - 2])) = 6 * nat (nX - 1)"
  by (simp add: length_concat_map_const [where n = 6] length_cellIndices)

lemma length_indexLoop:
  "length (indexLoop ops hm past nX nZ) = 6 * nat (nX - 1) * nat (nZ - 1)"
  unfolding indexLoop_concat
  by (simp add: length_concat_map_const [where n = "6 * nat (nX - 1)"] length_indexRow)

lemma indexLoop_nth:
  assumes "0 \<le> i" "i \<le> nX - 2" "0 \<le> j" "j \<le> nZ - 2" "k < 6"
  shows "indexLoop ops hm past nX nZ ! (6 * (nat j * nat (nX - 1) + nat i) + k) =
         cellIndices ops hm past nX nZ j i ! k"
proof -
  let ?row = "\<lambda>j. concat (map (cellIndices ops hm past nX nZ j) [0..nX - 2])"
  have rowlen: "\<And>j. length (?row j) = 6 * nat (nX - 1)"
    by (rule length_indexRow)
  have inner: "nat i * 6 + k < 6 * nat (nX - 1)"
    using assms by (simp add: nat_less_iff)
  have "concat (map ?row [0..nZ - 2]) ! (nat j * (6 * nat (nX - 1)) + (nat i * 6 + k)) =
        ?row ([0..nZ - 2] ! nat j) ! (nat i * 6 + k)"
    using assms inner by (intro nth_concat_map_const rowlen) auto
  also have "[0..nZ - 2] ! nat j = j"
    using assms by simp
  also have "?row j ! (nat i * 6 + k) = cellIndices ops hm past nX nZ j ([0..nX - 2] ! nat i) ! k"
    using assms by (intro nth_concat_map_const length_cellIndices) auto
  also have "[0..nX - 2] ! nat i = i"
    using assms by simp
  finally show ?thesis
    by (simp add: indexLoop_concat algebra_simps)
qed

lemma createPlaneIndexData_InrD:
  "createPlaneIndexData ops res hm past = Inr buf \<Longrightarrow>
   buf = indexLoop ops hm past (res + 2) (res + 2)"
  by (simp add: createPlaneIndexData_def Let_def split: if_splits)

lemma createPlaneIndexData_bounded:
  assumes "- 1 \<le> res" "res \<le> 9458"
  shows "createPlaneIndexData ops res hm past = Inr (indexLoop ops hm past (res + 2) (res + 2))"
proof -
  have sq: "(res + 1) * (res + 1) \<le> 9459 * 9459"
    using assms by (intro sq_le_mono) simp_all
  have nn: "0 \<le> (res + 1) * (res + 1)" by simp
  define n where "n = (res + 1) * (res + 1)"
  have n: "0 \<le> n" "n \<le> 89472681" using sq nn by (simp_all add: n_def)
  have faces: "2 * (res + 2 - 1) * (res + 2 - 1) = 2 * n"
    by (simp add: n_def algebra_simps)
  have len: "length (indexLoop ops hm past (res + 2) (res + 2)) = nat (6 * n)"
    using assms by (simp add: length_indexLoop n_def nat_mult_distrib add.commute)
  have f1: "fits_int (res + 2)" "fits_int (2 * n)" "fits_int (3 * (2 * n))" "fits_int (6 * n * 4)"
    using assms n by (simp_all add: fits_int_def)
  have u: "to_uint (6 * n) = 6 * n"
    using n by (simp add: to_uint_id)
  have t: "to_int (24 * n) = 24 * n"
    using n by (simp add: to_int_id fits_int_def)
  have m: "nat (24 * n) = 4 * nat (6 * n)"
    using n by simp
  show ?thesis
    unfolding createPlaneIndexData_def Let_def faces
    using f1 n by (simp add: u t m QByteArray_resize_def len)
qed

lemma cellTriangles_indexLoop:
  assumes "0 \<le> i" "i \<le> res" "0 \<le> j" "j \<le> res"
  shows "cellTriangle1 res (indexLoop ops hm past (res + 2) (res + 2)) j i =
           take 3 (cellIndices ops hm past (res + 2) (res + 2) j i)"
    and "cellTriangle2 res (indexLoop ops hm past (res + 2) (res + 2)) j i =
           drop 3 (cellIndices ops hm past (res + 2) (res + 2) j i)"
proof -
  let ?buf = "indexLoop ops hm past (res + 2) (res + 2)"
  let ?c = "nat j * nat (res + 1) + nat i"
  let ?cell = "cellIndices ops hm past (res + 2) (res + 2) j i"
  have nth: "?buf ! (6 * ?c + k) = ?cell ! k" if "k < 6" for k
    using indexLoop_nth [of i "res + 2" j "res + 2" k ops hm past] assms that
    by (simp add: add.commute)
  have "nat j * nat (res + 1) + nat i < nat (res + 1) * nat (res + 1)"
  proof -
    have "nat j * nat (res + 1) + nat i < nat j * nat (res + 1) + nat (res + 1)"
      using assms by simp
    also have "\<dots> = (nat j + 1) * nat (res + 1)" by (simp add: algebra_simps)
    also have "\<dots> \<le> nat (res + 1) * nat (res + 1)"
      using assms by (intro mult_right_mono) simp_all
    finally show ?thesis .
  qed
  then have len: "6 * ?c + 6 \<le> length ?buf"
    using assms by (simp add: length_indexLoop add.commute)
  define m where "m = 6 * ?c"
  have len': "m + 3 \<le> length ?buf" "m + 3 + 3 \<le> length ?buf"
    using len by (simp_all add: m_def)
  have n0: "?buf ! m = ?cell ! 0" using nth [of 0] by (simp add: m_def)
  have n1: "?buf ! (m + 1) = ?cell ! 1" using nth [of 1] by (simp add: m_def)
  have n2: "?buf ! (m + 2) = ?cell ! 2" using nth [of 2] by (simp add: m_def)
  have n3: "?buf ! (m + 3) = ?cell ! 3" using nth [of 3] by (simp add: m_def)
  have e4: "m + 3 + 1 = 6 * ?c + 4" and e5: "m + 3 + 2 = 6 * ?c + 5"
    by (simp_all add: m_def)
  have n4: "?buf ! (m + 3 + 1) = ?cell ! 4" unfolding e4 by (rule nth) simp
  have n5: "?buf ! (m + 3 + 2) = ?cell ! 5" unfolding e5 by (rule nth) simp
  obtain a b c d e f where cell: "?cell = [a, b, c, d, e, f]"
    by (cases "hasNoData ops i j hm past (res + 2) (res + 2)")
       (simp_all add: cellIndices_def Let_def)
  have "take 3 (drop m ?buf) = [?cell ! 0, ?cell ! 1, ?cell ! 2]"
    using take3_drop [OF len'(1)] by (simp only: n0 n1 n2)
  then show "cellTriangle1 res ?buf j i = take 3 ?cell"
    unfolding cellTriangle1_def m_def [symmetric] by (simp add: cell)
  have "take 3 (drop (m + 3) ?buf) = [?cell ! 3, ?cell ! 4, ?cell ! 5]"
    using take3_drop [OF len'(2)] by (simp only: n3 n4 n5)
  then show "cellTriangle2 res ?buf j i = drop 3 ?cell"
    unfolding cellTriangle2_def m_def [symmetric] by (simp add: cell)
qed

lemma vertexSampleIndex_bounds:
  assumes "2 \<le> res"
  shows "0 \<le> vertexSampleIndex res j i" and "vertexSampleIndex res j i < res * res"
proof -
  let ?jB = "qBound 0 j (res - 1)" and ?iB = "qBound 0 i (res - 1)"
  have b: "0 \<le> ?jB" "?jB \<le> res - 1" "0 \<le> ?iB" "?iB \<le> res - 1"
    using assms by (simp_all add: qBound_def)
  have "?jB * res \<le> (res - 1) * res"
    using b assms by (intro mult_right_mono) simp_all
  then have "?jB * res + ?iB < res * res"
    using b by (simp add: algebra_simps)
  then show "vertexSampleIndex res j i < res * res"
    by (simp add: vertexSampleIndex_def)
  have "0 \<le> ?jB * res" using b assms by simp
  then show "0 \<le> vertexSampleIndex res j i"
    using b by (simp add: vertexSampleIndex_def)
qed

lemma ijToHeightMapIndex_interior:
  assumes "2 \<le> res" "0 \<le> p" "p \<le> res" "0 \<le> q" "q \<le> res"
  shows "ijToHeightMapIndex p q (res + 2) (res + 2) = vertexSampleIndex res (q - 1) (p - 1)"
proof -
  have "qBound 1 p (res + 2 - 1) - 1 = qBound 0 (p - 1) (res - 1)"
    using assms by (simp add: qBound_def max_def min_def)
  moreover have "qBound 1 q (res + 2 - 1) - 1 = qBound 0 (q - 1) (res - 1)"
    using assms by (simp add: qBound_def max_def min_def)
  ultimately show ?thesis
    by (simp add: ijToHeightMapIndex_def vertexSampleIndex_def Let_def)
qed

lemma vertexSampleIndex_min:
  "2 \<le> res \<Longrightarrow> vertexSampleIndex res (q - 1) (p - 1) =
     vertexSampleIndex res (min q res - 1) (min p res - 1)"
  by (simp add: vertexSampleIndex_def qBound_def max_def min_def)

lemma hasNoData_corner:
  assumes "2 \<le> res" "length hm = nat (res * res)"
    and "0 \<le> i" "i \<le> res" "0 \<le> j" "j \<le> res"
    and "p = i \<or> p = i + 1" "q = j \<or> q = j + 1"
    and "f_isnan ops (hm ! nat (vertexSampleIndex res (q - 1) (p - 1)))"
  shows "hasNoData ops i j hm past (res + 2) (res + 2)"
proof -
  let ?p = "min p res" and ?q = "min q res"
  have pq: "0 \<le> ?p" "?p \<le> res" "0 \<le> ?q" "?q \<le> res"
    using assms by auto
  have idx: "ijToHeightMapIndex ?p ?q (res + 2) (res + 2) = vertexSampleIndex res (q - 1) (p - 1)"
    using ijToHeightMapIndex_interior [OF assms(1) pq] vertexSampleIndex_min [OF assms(1)]
    by simp
  have "peek hm past (vertexSampleIndex res (q - 1) (p - 1)) =
        hm ! nat (vertexSampleIndex res (q - 1) (p - 1))"
    using vertexSampleIndex_bounds [OF assms(1), of "q - 1" "p - 1"] assms(1,2)
    by (simp add: peek_def)
  then have nan: "f_isnan ops (peek hm past (ijToHeightMapIndex ?p ?q (res + 2) (res + 2)))"
    using assms(9) idx by simp
  have "?p = i \<or> ?p = i + 1" "?q = j \<or> ?q = j + 1"
    using assms by (auto simp: min_def)
  then show ?thesis
    using nan unfolding hasNoData_def by auto
qed

section \<open>The vertex buffer\<close>

lemma planeVertex_not_interior:
  "\<not> (i = qBound 0 i (res - 1) \<and> j = qBound 0 j (res - 1)) \<Longrightarrow>
   planeVertex ops res skirt hs j i k = planeVertex ops res skirt hs j i k'"
  by (simp only: planeVertex_def Let_def if_False)

lemma interior_iff:
  "1 \<le> res \<Longrightarrow> (i = qBound 0 i (res - 1) \<and> j = qBound 0 j (res - 1)) =
     (0 \<le> i \<and> i \<le> res - 1 \<and> 0 \<le> j \<and> j \<le> res - 1)"
  by (auto simp: qBound_def max_def min_def)

lemma consumed_interior:
  assumes "1 \<le> res" "0 \<le> i" "i \<le> res - 1" "0 \<le> j" "j \<le> res - 1"
  shows "consumed res j i = nat (j * res + i)"
    and "consumed res j (i + 1) = Suc (nat (j * res + i))"
proof -
  have "0 \<le> j * res" using assms by simp
  then show "consumed res j i = nat (j * res + i)"
    and "consumed res j (i + 1) = Suc (nat (j * res + i))"
    using assms by (simp_all add: consumed_def qBound_def nat_add_distrib)
qed

lemma consumed_not_interior:
  assumes "1 \<le> res" "- 1 \<le> i" "i \<le> res"
    and "\<not> (0 \<le> i \<and> i \<le> res - 1 \<and> 0 \<le> j \<and> j \<le> res - 1)"
  shows "consumed res j (i + 1) = consumed res j i"
  using assms by (auto simp: consumed_def qBound_def max_def min_def)

lemma vertexStep_consumed:
  assumes "1 \<le> res" "- 1 \<le> i" "i \<le> res"
  shows "vertexStep ops res skirt hs j i (consumed res j i, out) =
         (consumed res j (i + 1), out @ planeVertex ops res skirt hs j i (nat (j * res + i)))"
proof (cases "0 \<le> i \<and> i \<le> res - 1 \<and> 0 \<le> j \<and> j \<le> res - 1")
  case True
  then have int: "i = qBound 0 i (res - 1) \<and> j = qBound 0 j (res - 1)"
    using interior_iff [OF assms(1)] by simp
  show ?thesis
    using True int consumed_interior [OF assms(1), of i j]
    by (simp add: vertexStep_def)
next
  case False
  then have nint: "\<not> (i = qBound 0 i (res - 1) \<and> j = qBound 0 j (res - 1))"
    using interior_iff [OF assms(1)] by simp
  show ?thesis
    using nint consumed_not_interior [OF assms False]
      planeVertex_not_interior [OF nint, of ops skirt hs "consumed res j i" "nat (j * res + i)"]
    by (simp add: vertexStep_def)
qed

lemma vertexRow_consumed:
  assumes "1 \<le> res"
  shows "- 1 \<le> a \<Longrightarrow> a \<le> res + 1 \<Longrightarrow> n = nat (res + 1 - a) \<Longrightarrow>
         fold (vertexStep ops res skirt hs j) [a..res] (consumed res j a, out) =
         (consumed res j (res + 1),
          out @ concat (map (\<lambda>i. planeVertex ops res skirt hs j i (nat (j * res + i))) [a..res]))"
proof (induction n arbitrary: a out)
  case 0
  then have "a = res + 1" by simp
  then show ?case by simp
next
  case (Suc n)
  then have a: "a \<le> res" by simp
  have IH: "fold (vertexStep ops res skirt hs j) [a + 1..res] (consumed res j (a + 1), out') =
         (consumed res j (res + 1),
          out' @ concat (map (\<lambda>i. planeVertex ops res skirt hs j i (nat (j * res + i))) [a + 1..res]))"
    for out'
    using Suc.prems a by (intro Suc.IH) simp_all
  have step: "vertexStep ops res skirt hs j a (consumed res j a, out) =
         (consumed res j (a + 1), out @ planeVertex ops res skirt hs j a (nat (j * res + a)))"
    by (rule vertexStep_consumed [OF assms Suc.prems(1) a])
  show ?case
    using a by (simp add: upto_rec1 [of a res] step IH)
qed

lemma consumed_next_row:
  assumes "1 \<le> res" "- 1 \<le> j" "j \<le> res"
  shows "consumed res j (res + 1) = consumed res (j + 1) (- 1)"
proof -
  have "j = - 1 \<or> (0 \<le> j \<and> j + 1 < res) \<or> j + 1 = res \<or> j = res"
    using assms by linarith
  then show ?thesis
    using assms by (auto simp: consumed_def qBound_def algebra_simps)
qed

lemma vertexRows_consumed:
  assumes "1 \<le> res"
  shows "- 1 \<le> b \<Longrightarrow> b \<le> res + 1 \<Longrightarrow> n = nat (res + 1 - b) \<Longrightarrow>
         fold (\<lambda>j. fold (vertexStep ops res skirt hs j) [- 1..res]) [b..res]
           (consumed res b (- 1), out) =
         (consumed res (res + 1) (- 1),
          out @ concat (map (\<lambda>j. concat (map (\<lambda>i.
                  planeVertex ops res skirt hs j i (nat (j * res + i))) [- 1..res])) [b..res]))"
proof (induction n arbitrary: b out)
  case 0
  then have "b = res + 1" by simp
  then show ?case by simp
next
  case (Suc n)
  then have b: "b \<le> res" by simp
  have row: "fold (vertexStep ops res skirt hs b) [- 1..res] (consumed res b (- 1), out) =
        (consumed res (b + 1) (- 1),
         out @ concat (map (\<lambda>i. planeVertex ops res skirt hs b i (nat (b * res + i))) [- 1..res]))"
    using vertexRow_consumed [OF assms, of "- 1" _ ops skirt hs b out] assms
      consumed_next_row [OF assms Suc.prems(1) b]
    by simp
  have IH: "fold (\<lambda>j. fold (vertexStep ops res skirt hs j) [- 1..res]) [b + 1..res]
           (consumed res (b + 1) (- 1), out') =
         (consumed res (res + 1) (- 1),
          out' @ concat (map (\<lambda>j. concat (map (\<lambda>i.
                  planeVertex ops res skirt hs j i (nat (j * res + i))) [- 1..res])) [b + 1..res]))"
    for out'
    using Suc.prems b by (intro Suc.IH) simp_all
  show ?case
    using b by (simp add: upto_rec1 [of b res] row IH)
qed

lemma vertexLoop_direct:
  assumes "1 \<le> res"
  shows "snd (vertexLoop ops res skirt hs) =
         concat (map (\<lambda>j. concat (map (\<lambda>i.
            planeVertex ops res skirt hs j i (nat (j * res + i))) [- 1..res])) [- 1..res])"
proof -
  have "consumed res (- 1) (- 1) = 0" by (simp add: consumed_def)
  then show ?thesis
    using vertexRows_consumed [OF assms, of "- 1" _ ops skirt hs "[]"] assms
    by (simp add: vertexLoop_def)
qed

text \<open>Under the two assertions every read of the height map is inside it: the pointer
  \<^verbatim>\<open>zBits\<close> at an interior vertex, and the clamped index at a padding vertex (lemma
  \<open>interior_sample_index\<close> below).\<close>

lemma zBits_in_bounds:
  assumes "1 \<le> res" "0 \<le> i" "i \<le> res - 1" "0 \<le> j" "j \<le> res - 1"
  shows "consumed res j i < nat (res * res)"
proof -
  have "j * res \<le> (res - 1) * res"
    using assms by (intro mult_right_mono) simp_all
  then have "j * res + i < res * res"
    using assms by (simp add: algebra_simps)
  moreover have "0 \<le> j * res + i"
    using assms by simp
  ultimately show ?thesis
    using consumed_interior(1) [OF assms] by simp
qed

lemma length_planeVertex: "length (planeVertex ops res skirt hs j i k) = 8"
  by (simp add: planeVertex_def Let_def)

lemma length_vertexRow:
  "length (concat (map (\<lambda>i. planeVertex ops res skirt hs j i (g j i)) [- 1..res])) =
   8 * nat (res + 2)"
  by (simp add: length_concat_map_const [where n = 8] length_planeVertex)

lemma length_vertexGrid:
  "length (concat (map (\<lambda>j. concat (map (\<lambda>i. planeVertex ops res skirt hs j i (g j i))
      [- 1..res])) [- 1..res])) = 8 * nat (res + 2) * nat (res + 2)"
  by (simp add: length_concat_map_const [where n = "8 * nat (res + 2)"] length_vertexRow
        add.commute)

lemma vertexGrid_nth:
  assumes "- 1 \<le> i" "i \<le> res" "- 1 \<le> j" "j \<le> res" "s < 8"
  shows "vertexFloat res (concat (map (\<lambda>j. concat (map (\<lambda>i.
            planeVertex ops res skirt hs j i (g j i)) [- 1..res])) [- 1..res])) j i s =
         planeVertex ops res skirt hs j i (g j i) ! s"
proof -
  let ?row = "\<lambda>j. concat (map (\<lambda>i. planeVertex ops res skirt hs j i (g j i)) [- 1..res])"
  have inner: "nat (i + 1) * 8 + s < 8 * nat (res + 2)"
    using assms by (simp add: nat_less_iff)
  have "concat (map ?row [- 1..res]) ! (nat (j + 1) * (8 * nat (res + 2)) + (nat (i + 1) * 8 + s)) =
        ?row ([- 1..res] ! nat (j + 1)) ! (nat (i + 1) * 8 + s)"
    using assms inner by (intro nth_concat_map_const length_vertexRow) auto
  also have "[- 1..res] ! nat (j + 1) = j"
    using assms by simp
  also have "?row j ! (nat (i + 1) * 8 + s) =
             planeVertex ops res skirt hs j ([- 1..res] ! nat (i + 1)) (g j ([- 1..res] ! nat (i + 1))) ! s"
    using assms
    by (intro nth_concat_map_const [where f = "\<lambda>i. planeVertex ops res skirt hs j i (g j i)"]
          length_planeVertex) auto
  also have "[- 1..res] ! nat (i + 1) = i"
    using assms by simp
  finally show ?thesis
    by (simp add: vertexFloat_def algebra_simps)
qed

lemma createPlaneVertexData_InrD:
  assumes "createPlaneVertexData ops res skirt hs = Inr buf"
  shows "2 \<le> res" and "length hs = nat (res * res)"
    and "buf = concat (map (\<lambda>j. concat (map (\<lambda>i.
            planeVertex ops res skirt hs j i (nat (j * res + i))) [- 1..res])) [- 1..res])"
proof -
  show r: "2 \<le> res"
    using assms by (simp add: createPlaneVertexData_def split: if_splits)
  show "length hs = nat (res * res)"
    using assms by (simp add: createPlaneVertexData_def split: if_splits)
  have "buf = snd (vertexLoop ops res skirt hs)"
    using assms by (simp add: createPlaneVertexData_def Let_def split: if_splits)
  then show "buf = concat (map (\<lambda>j. concat (map (\<lambda>i.
            planeVertex ops res skirt hs j i (nat (j * res + i))) [- 1..res])) [- 1..res])"
    using r by (simp add: vertexLoop_direct)
qed

lemma createPlaneVertexData_vertexFloat:
  assumes "createPlaneVertexData ops res skirt hs = Inr buf"
    and "- 1 \<le> i" "i \<le> res" "- 1 \<le> j" "j \<le> res" "s < 8"
  shows "vertexFloat res buf j i s = planeVertex ops res skirt hs j i (nat (j * res + i)) ! s"
  unfolding createPlaneVertexData_InrD(3) [OF assms(1)]
  using assms(2-6) by (rule vertexGrid_nth)

lemma length_vertexLoop:
  "1 \<le> res \<Longrightarrow> length (snd (vertexLoop ops res skirt hs)) = 8 * nat (res + 2) * nat (res + 2)"
  by (simp add: vertexLoop_direct length_vertexGrid)

lemma createPlaneVertexData_bounded:
  assumes "2 \<le> res" "res \<le> 8189" "length hs = nat (res * res)"
  shows "createPlaneVertexData ops res skirt hs = Inr (snd (vertexLoop ops res skirt hs))"
proof -
  define n where "n = (res + 2) * (res + 2)"
  have "(res + 2) * (res + 2) \<le> 8191 * 8191"
    using assms by (intro sq_le_mono) simp_all
  then have n: "0 \<le> n" "n \<le> 67092481" by (simp_all add: n_def)
  have ub: "res * res \<le> 8189 * 8189"
    using assms by (intro sq_le_mono) simp_all
  have nn: "0 \<le> res * res" by simp
  have f: "fits_int (res * res * 4)"
    unfolding fits_int_def using ub nn by (simp del: zero_le_square mult_nonneg_nonneg)
  have h: "4 * int (length hs) = res * res * 4"
    using assms by simp
  have len: "4 * length (snd (vertexLoop ops res skirt hs)) = nat (32 * n)"
    using assms by (simp add: length_vertexLoop n_def nat_mult_distrib)
  have t: "to_int (to_uint (32 * n)) = 32 * n"
    using n by (simp add: to_uint_id to_int_id fits_int_def)
  have fn: "fits_int n" using n by (simp add: fits_int_def)
  show ?thesis
    unfolding createPlaneVertexData_def Let_def n_def [symmetric]
    using assms(1) f h fn n by (simp add: t QByteArray_resize_def len del: length_upto)
qed

lemma interior_sample_index:
  assumes "2 \<le> res" "- 1 \<le> i" "i \<le> res" "- 1 \<le> j" "j \<le> res"
  shows "nat (qBound 0 j (res - 1) * res + qBound 0 i (res - 1)) < nat (res * res)"
  using vertexSampleIndex_bounds [OF assms(1), of j i] by (simp add: vertexSampleIndex_def)

section \<open>The triangle loop\<close>


lemma triangleStep_fold:
  "triangleStep ops rops vb past ib r m =
   (\<lambda>i st. case triangleHit ops rops vb past ib r m i of None \<Rightarrow> st
      | Some hit \<Rightarrow> if f_eq ops (fst st) (f_of_int ops (- 1)) \<or> f_lt ops (snd hit) (fst st)
                    then (snd hit, fst hit) else st)"
  by (intro ext) (simp add: triangleStep_def)





section \<open>The instance\<close>


lemma flat_vertices_built:
  "createPlaneVertexData exact_ops 2 (XFin 1) flat_tile = Inr flat_vertices"
  unfolding flat_vertices_def
  by (rule createPlaneVertexData_bounded) (simp_all add: flat_tile_def)

lemma ramp_vertices_built:
  "createPlaneVertexData exact_ops 3 (XFin 1) ramp_tile = Inr ramp_vertices"
  unfolding ramp_vertices_def
  by (rule createPlaneVertexData_bounded) (simp_all add: ramp_tile_def)

lemma flat_indices_built:
  "createPlaneIndexData exact_ops 2 flat_tile zero_past = Inr flat_indices"
  by code_simp

lemma holed_indices_built:
  "createPlaneIndexData exact_ops 2 holed_tile zero_past = Inr holed_indices"
  by code_simp

lemma ridge_vertices_built:
  "createPlaneVertexData exact_ops 3 (XFin 2) ridge_tile = Inr ridge_vertices"
  unfolding ridge_vertices_def
  by (rule createPlaneVertexData_bounded) (simp_all add: ridge_tile_def)

lemma ridge_indices_built:
  "createPlaneIndexData exact_ops 3 ridge_tile zero_past = Inr ridge_indices"
  by code_simp



text \<open>The flat tile of elevation 5 under the ray straight down onto its centre, and under
  the same ray moved beside the tile.\<close>

lemma flat_tile_centre:
  "intersectionDemTriangles exact_ops segment_ops flat_vertices zero_past flat_indices
     down_ray () = Inr (Some (XFin 0, XFin 5, XFin 0))"
  by code_simp

lemma flat_tile_missed:
  "intersectionDemTriangles exact_ops segment_ops flat_vertices zero_past flat_indices
     \<lparr> origin = (3, 10, 3), direction = (0, - 1, 0), len = 16 \<rparr> () = Inr None"
  by code_simp

text \<open>The index buffer of the flat tile depends on what lies behind its height map: with
  NaN there, the cells of the last row and the last cell of the row before have
  degenerate triangles, although no sample of the tile is missing.\<close>

lemma flat_indices_with_nan_behind:
  "createPlaneIndexData exact_ops 2 flat_tile nan_past =
   Inr [0, 4, 1, 4, 5, 1,  1, 5, 2, 5, 6, 2,  2, 6, 3, 6, 7, 3,
        4, 8, 5, 8, 9, 5,  5, 9, 6, 9, 10, 6,  6, 6, 6, 6, 6, 6,
        8, 8, 8, 8, 8, 8,  9, 9, 9, 9, 9, 9,  10, 10, 10, 10, 10, 10]"
  by code_simp

section \<open>Buffer sizes\<close>

text \<open>Up to a resolution of 8189 both size computations stay inside 32 bits, and the
  builders return buffers of \<open>8 * (res + 2)\<^sup>2\<close> floats and \<open>3 * 2 * (res + 1)\<^sup>2\<close> indices,
  whatever the samples are.\<close>

lemma buffer_sizes_bounded:
  assumes "2 \<le> res" "res \<le> 8189" "length heights = nat (res * res)"
  shows "\<exists>vb. createPlaneVertexData ops res skirtHeight heights = Inr vb \<and>
              length vb = 8 * nat ((res + 2) * (res + 2))"
    and "\<exists>ib. createPlaneIndexData ops res heights past = Inr ib \<and>
              length ib = 3 * 2 * nat ((res + 1) * (res + 1))"
proof -
  have "length (snd (vertexLoop ops res skirtHeight heights)) = 8 * nat ((res + 2) * (res + 2))"
    using assms(1) by (simp add: length_vertexLoop nat_mult_distrib)
  then show "\<exists>vb. createPlaneVertexData ops res skirtHeight heights = Inr vb \<and>
              length vb = 8 * nat ((res + 2) * (res + 2))"
    using createPlaneVertexData_bounded [OF assms, of ops skirtHeight] by simp
  have "length (indexLoop ops heights past (res + 2) (res + 2)) = 3 * 2 * nat ((res + 1) * (res + 1))"
    using assms(1) by (simp add: length_indexLoop nat_mult_distrib add.commute)
  moreover have "createPlaneIndexData ops res heights past =
                 Inr (indexLoop ops heights past (res + 2) (res + 2))"
    using assms by (intro createPlaneIndexData_bounded) simp_all
  ultimately show "\<exists>ib. createPlaneIndexData ops res heights past = Inr ib \<and>
              length ib = 3 * 2 * nat ((res + 1) * (res + 1))"
    by simp
qed

section \<open>The claims\<close>

text \<open>
  Claim C1. For every resolution of at least 2 and every sample array of length
  \<open>res\<^sup>2\<close> the vertex builder returns \<open>8 * (res + 2)\<^sup>2\<close> floats and the index builder
  \<open>3 * 2 * (res + 1)\<^sup>2\<close> indices.

  The code does so up to a resolution of 8189 (lemma \<open>buffer_sizes_bounded\<close>). It does not
  for every resolution: \<^verbatim>\<open>stride * nVerts\<close> is a product of a \<^verbatim>\<open>quint32\<close> and an \<^verbatim>\<open>int\<close>,
  formed modulo \<open>2\<^sup>3\<^sup>2\<close>. At a resolution of 11584, with a sample array of the asserted
  length, \<open>32 * 11586\<^sup>2 = 4295532672\<close> wraps to 565376 bytes, and the loop writes far
  beyond the end of the array that \<^verbatim>\<open>resize\<close> has allocated.
\<close>

theorem createPlaneVertexData_overflow:
  assumes "length hs = 11584 * 11584"
  shows "createPlaneVertexData ops 11584 skirt hs = Inl BufferOverrun"
proof -
  have len: "4 * length (snd (vertexLoop ops 11584 skirt hs)) = 4295532672"
    by (simp add: length_vertexLoop)
  have sz: "QByteArray_resize (to_int (to_uint (8 * 4 * ((11584 + 2) * (11584 + 2))))) = 565376"
    by (simp add: QByteArray_resize_def to_int_def to_uint_def)
  show ?thesis
    unfolding createPlaneVertexData_def Let_def sz len
    using assms by (simp add: fits_int_def)
qed

theorem createPlaneVertexData_overflow_witness:
  "length (replicate (11584 * 11584) (XFin 5)) = 11584 * 11584 \<and>
   createPlaneVertexData exact_ops 11584 (XFin 1) (replicate (11584 * 11584) (XFin 5)) =
     Inl BufferOverrun"
proof -
  have h: "length (replicate (11584 * 11584) (XFin 5)) = 11584 * 11584"
    by (simp only: length_replicate)
  show ?thesis
    by (rule conjI [OF h createPlaneVertexData_overflow [OF h]])
qed

text \<open>
  Claim C2. For every resolution of at least 2 and every cell \<open>(i, j)\<close> of the padded grid:
  if one of the four interior samples that touch the cell is NaN, both triangles of the
  cell in the index buffer have three equal indices.

  The cell at row \<open>j\<close> and column \<open>i\<close> has the padded vertices \<open>(p, q)\<close> with \<open>p\<close> one of
  \<open>i\<close>, \<open>i + 1\<close> and \<open>q\<close> one of \<open>j\<close>, \<open>j + 1\<close> as its corners; the interior sample nearest to
  such a vertex is the one that the vertex builder reads for it, at loop coordinates
  \<open>(p - 1, q - 1)\<close>. The theorem holds whatever \<open>hasNoData\<close> finds behind the height map.
\<close>

theorem degenerate_triangles_on_nodata:
  assumes "2 \<le> res" and "length heightMap = nat (res * res)"
    and "createPlaneIndexData ops res heightMap past = Inr buf"
    and "0 \<le> i" "i \<le> res" "0 \<le> j" "j \<le> res"
    and "p = i \<or> p = i + 1" and "q = j \<or> q = j + 1"
    and "f_isnan ops (heightMap ! nat (vertexSampleIndex res (q - 1) (p - 1)))"
  shows "cellTriangle1 res buf j i = replicate 3 (word_of_int (j * (res + 2) + i)) \<and>
         cellTriangle2 res buf j i = replicate 3 (word_of_int (j * (res + 2) + i))"
proof -
  have buf: "buf = indexLoop ops heightMap past (res + 2) (res + 2)"
    using assms(3) by (rule createPlaneIndexData_InrD)
  have "hasNoData ops i j heightMap past (res + 2) (res + 2)"
    using assms by (intro hasNoData_corner [where p = p and q = q]) simp_all
  then have "cellIndices ops heightMap past (res + 2) (res + 2) j i =
             replicate 6 (word_of_int (j * (res + 2) + i))"
    by (simp add: cellIndices_def Let_def numeral_eq_Suc)
  then show ?thesis
    using cellTriangles_indexLoop [OF assms(4-7), of ops heightMap past]
    by (simp add: buf numeral_eq_Suc)
qed

theorem degenerate_triangles_on_nodata_witness:
  "2 \<le> (2::int) \<and> length holed_tile = nat (2 * 2) \<and>
   createPlaneIndexData exact_ops 2 holed_tile zero_past = Inr holed_indices \<and>
   f_isnan exact_ops (holed_tile ! nat (vertexSampleIndex 2 (1 - 1) (1 - 1))) \<and>
   cellTriangle1 2 holed_indices 1 1 = replicate 3 5 \<and>
   cellTriangle2 2 holed_indices 1 1 = replicate 3 5"
proof -
  have h1: "length holed_tile = nat (2 * 2)"
    by (simp add: holed_tile_def)
  have h2: "f_isnan exact_ops (holed_tile ! nat (vertexSampleIndex 2 (1 - 1) (1 - 1)))"
    by code_simp
  have "cellTriangle1 2 holed_indices 1 1 = replicate 3 (word_of_int (1 * (2 + 2) + 1)) \<and>
        cellTriangle2 2 holed_indices 1 1 = replicate 3 (word_of_int (1 * (2 + 2) + 1))"
    by (rule degenerate_triangles_on_nodata
          [where ops = exact_ops and heightMap = holed_tile and past = zero_past
             and p = 1 and q = 1, OF _ h1 holed_indices_built _ _ _ _ _ _ h2])
       simp_all
  then show ?thesis
    using h1 h2 holed_indices_built by simp
qed

text \<open>
  Claim C3. For every resolution of at least 2 and every cell \<open>(i, j)\<close> with
  \<open>0 \<le> i, j \<le> res\<close>, each of the four lookups of the no-data check reads the interior
  sample nearest to the padded vertex, at an index in \<open>[0, res\<^sup>2)\<close>.

  The code does not: \<open>ijToHeightMapIndex\<close> clamps to \<^verbatim>\<open>numVerticesX - 1\<close>, one more than
  the last padded coordinate that has an interior sample of its own. In every cell of the
  last row, \<open>j = res\<close>, the lookup at \<open>(i, j + 1)\<close> has an index of at least \<open>res\<^sup>2\<close>, and
  what \<open>hasNoData\<close> tests there is the memory behind the height map (lemma
  \<open>flat_indices_with_nan_behind\<close> shows the effect on a tile without a missing sample).
\<close>

theorem hasNoData_lookup_beyond_heightMap:
  assumes "2 \<le> res" and "0 \<le> i" and "i \<le> res" and "length heightMap = nat (res * res)"
  shows "res * res \<le> ijToHeightMapIndex i (res + 1) (res + 2) (res + 2) \<and>
         peek heightMap past (ijToHeightMapIndex i (res + 1) (res + 2) (res + 2)) =
           past (ijToHeightMapIndex i (res + 1) (res + 2) (res + 2))"
proof -
  have "ijToHeightMapIndex i (res + 1) (res + 2) (res + 2) = res * res + (max 1 i - 1)"
    using assms by (simp add: ijToHeightMapIndex_def qBound_def Let_def min_def)
  moreover have "0 \<le> max 1 i - 1" by simp
  ultimately have le: "res * res \<le> ijToHeightMapIndex i (res + 1) (res + 2) (res + 2)"
    by linarith
  then show ?thesis
    using assms(4) by (simp add: peek_def)
qed

theorem hasNoData_lookup_beyond_heightMap_witness:
  "2 \<le> (2::int) \<and> 0 \<le> (0::int) \<and> (0::int) \<le> 2 \<and> length flat_tile = nat (2 * 2) \<and>
   ijToHeightMapIndex 0 (2 + 1) (2 + 2) (2 + 2) = 4 \<and>
   peek flat_tile nan_past (ijToHeightMapIndex 0 (2 + 1) (2 + 2) (2 + 2)) = XNaN"
proof -
  have h: "length flat_tile = nat (2 * 2)"
    by (simp add: flat_tile_def)
  have e: "ijToHeightMapIndex 0 (2 + 1) (2 + 2) (2 + 2) = 4"
    by (simp add: ijToHeightMapIndex_def qBound_def)
  have "peek flat_tile nan_past (ijToHeightMapIndex 0 (2 + 1) (2 + 2) (2 + 2)) =
        nan_past (ijToHeightMapIndex 0 (2 + 1) (2 + 2) (2 + 2))"
    using hasNoData_lookup_beyond_heightMap [of 2 0 flat_tile nan_past] h by simp
  then show ?thesis
    using h e by simp
qed




text \<open>
  Claim C5. For every resolution of at least 2, every finite elevation \<open>h\<close> and every
  finite skirt height \<open>s\<close>, the vertex buffer of the grid of constant elevation \<open>h\<close> has
  the height \<open>h - s\<close> at every padding vertex (a coordinate is clamped) and \<open>h\<close> at every
  interior vertex.

  For finite \<open>h\<close> and \<open>s\<close> neither \<open>h\<close> nor the float \<open>h - s\<close> is NaN, which is all that the
  code's \<^verbatim>\<open>std::isnan\<close> test can see of them.
\<close>

theorem flat_grid_heights:
  assumes "2 \<le> res"
    and "\<not> f_isnan ops h" and "\<not> f_isnan ops (f_sub ops h s)"
    and "createPlaneVertexData ops res s (replicate (nat (res * res)) h) = Inr buf"
    and "- 1 \<le> i" "i \<le> res" "- 1 \<le> j" "j \<le> res"
  shows "vertexFloat res buf j i 1 =
           (if i = qBound 0 i (res - 1) \<and> j = qBound 0 j (res - 1) then h else f_sub ops h s)"
proof -
  let ?hs = "replicate (nat (res * res)) h"
  have v: "vertexFloat res buf j i 1 = planeVertex ops res s ?hs j i (nat (j * res + i)) ! 1"
    using assms(4-8) by (intro createPlaneVertexData_vertexFloat) simp_all
  have clamped: "?hs ! nat (qBound 0 j (res - 1) * res + qBound 0 i (res - 1)) = h"
    using interior_sample_index [OF assms(1,5-8)] by simp
  show ?thesis
  proof (cases "i = qBound 0 i (res - 1) \<and> j = qBound 0 j (res - 1)")
    case True
    then have "?hs ! nat (j * res + i) = h"
      using clamped by simp
    show ?thesis
      unfolding v planeVertex_def Let_def if_P [OF True] \<open>?hs ! nat (j * res + i) = h\<close>
      using assms(2) by simp
  next
    case False
    show ?thesis
      unfolding v planeVertex_def Let_def if_not_P [OF False] clamped
      using assms(3) by simp
  qed
qed

theorem flat_grid_heights_witness:
  "2 \<le> (2::int) \<and> \<not> f_isnan exact_ops (XFin 5) \<and>
   \<not> f_isnan exact_ops (f_sub exact_ops (XFin 5) (XFin 1)) \<and>
   createPlaneVertexData exact_ops 2 (XFin 1) (replicate (nat (2 * 2)) (XFin 5)) =
     Inr flat_vertices \<and>
   vertexFloat 2 flat_vertices 0 (- 1) 1 = XFin 4 \<and>
   vertexFloat 2 flat_vertices 1 0 1 = XFin 5"
proof -
  have t: "replicate (nat (2 * 2)) (XFin 5) = flat_tile"
    by (simp add: flat_tile_def numeral_eq_Suc)
  have h2: "\<not> f_isnan exact_ops (XFin 5)"
    by (simp add: exact_ops_def)
  have h3: "\<not> f_isnan exact_ops (f_sub exact_ops (XFin 5) (XFin 1))"
    by (simp add: exact_ops_def)
  have h4: "createPlaneVertexData exact_ops 2 (XFin 1) (replicate (nat (2 * 2)) (XFin 5)) =
     Inr flat_vertices"
    unfolding t by (rule flat_vertices_built)
  have "vertexFloat 2 flat_vertices 0 (- 1) 1 = XFin 4"
    using flat_grid_heights [OF _ h2 h3 h4, of "- 1" 0]
    by (simp add: qBound_def exact_ops_def)
  moreover have "vertexFloat 2 flat_vertices 1 0 1 = XFin 5"
    using flat_grid_heights [OF _ h2 h3 h4, of 0 1]
    by (simp add: qBound_def exact_ops_def)
  ultimately show ?thesis
    using h2 h3 h4 by simp
qed

text \<open>
  Claim C6. The traversal that takes the next sample exactly when both padded
  coordinates are unclamped gives every interior vertex \<open>(i, j)\<close> the sample
  \<open>heights[j * res + i]\<close>: the vertex buffer is that of a reference builder with direct
  row-major indexing.

  The reference builder differs from the code in the one expression for the height of an
  interior vertex; both replace a NaN height by 0, and both fail in the same way on the
  same inputs.
\<close>

theorem sequential_equals_direct:
  "createPlaneVertexData ops res skirtHeight heights =
   createPlaneVertexData_direct ops res skirtHeight heights"
proof (cases "2 \<le> res")
  case True
  then have "1 \<le> res" by simp
  then show ?thesis
    by (simp add: createPlaneVertexData_def createPlaneVertexData_direct_def vertexLoop_direct)
next
  case False
  then show ?thesis
    by (simp add: createPlaneVertexData_def createPlaneVertexData_direct_def)
qed

theorem sequential_equals_direct_witness:
  "createPlaneVertexData exact_ops 3 (XFin 1) ramp_tile = Inr ramp_vertices \<and>
   createPlaneVertexData_direct exact_ops 3 (XFin 1) ramp_tile = Inr ramp_vertices \<and>
   vertexFloat 3 ramp_vertices 1 2 1 = XFin 6 \<and>
   ramp_tile ! nat (1 * 3 + 2) = XFin 6"
proof -
  have "createPlaneVertexData_direct exact_ops 3 (XFin 1) ramp_tile = Inr ramp_vertices"
    using sequential_equals_direct [of exact_ops 3 "XFin 1" ramp_tile] ramp_vertices_built
    by simp
  moreover have "vertexFloat 3 ramp_vertices 1 2 1 = XFin 6" by code_simp
  moreover have "ramp_tile ! nat (1 * 3 + 2) = XFin 6" by code_simp
  ultimately show ?thesis
    using ramp_vertices_built by simp
qed

text \<open>
  Claim C7. The equality of each buffer functor is true exactly when the resolution, the
  skirt height and the sample sequence (those that the functor has) are equal; two index
  functors with the same resolution and different samples are unequal.

  \<^verbatim>\<open>PlaneIndexBufferFunctor::operator==\<close> compares \<^verbatim>\<open>mResolution\<close> only, unlike that of the
  vertex functor, which compares all its members: the index functors of the flat tile and
  of the tile with a missing sample are equal, and their buffers differ.
\<close>

theorem index_functor_equality_ignores_samples:
  "PlaneIndexBufferFunctor_eq (PlaneIndexBufferFunctor 2 flat_tile)
     (PlaneIndexBufferFunctor 2 holed_tile) \<and>
   flat_tile \<noteq> holed_tile \<and>
   createPlaneIndexData exact_ops 2 flat_tile zero_past = Inr flat_indices \<and>
   createPlaneIndexData exact_ops 2 holed_tile zero_past = Inr holed_indices \<and>
   flat_indices \<noteq> holed_indices"
proof -
  have "flat_tile \<noteq> holed_tile"
    by (simp add: flat_tile_def holed_tile_def)
  moreover have "flat_indices \<noteq> holed_indices"
    by (simp add: flat_indices_def holed_indices_def)
  ultimately show ?thesis
    using flat_indices_built holed_indices_built by simp
qed




text \<open>
  Claim C9. For every resolution of at least 2, a padding vertex lies one grid step
  beyond the interior on the padded axis: at padded column \<open>-1\<close>, \<open>x = -1/2 - d\<close> and
  \<open>u = -du\<close>; at padded column \<open>res\<close>, \<open>x = -1/2 + res * d\<close> and \<open>u = res * du\<close>; rows
  alike.

  The code computes \<open>x\<close>, \<open>u\<close>, \<open>z\<close> and \<open>v\<close> from the clamped \<^verbatim>\<open>iBound\<close> and \<^verbatim>\<open>jBound\<close>: the
  skirt hangs straight down from the edge of the tile. On the flat tile of resolution 2
  the vertex at column \<open>-1\<close> has \<open>x = -1/2\<close> and \<open>u = 0\<close>, where the claim has \<open>-3/2\<close> and
  \<open>-1\<close>.
\<close>

theorem border_coordinates_counterexample:
  "createPlaneVertexData exact_ops 2 (XFin 1) flat_tile = Inr flat_vertices \<and>
   vertexFloat 2 flat_vertices 0 (- 1) 0 = XFin (- (1 / 2)) \<and>
   f_sub exact_ops (plane_x0 exact_ops) (plane_dx exact_ops 2) = XFin (- (3 / 2)) \<and>
   vertexFloat 2 flat_vertices 0 (- 1) 3 = XFin 0 \<and>
   f_neg exact_ops (plane_du exact_ops 2) = XFin (- 1)"
proof -
  have "vertexFloat 2 flat_vertices 0 (- 1) 0 = XFin (- (1 / 2))" by code_simp
  moreover have "f_sub exact_ops (plane_x0 exact_ops) (plane_dx exact_ops 2) = XFin (- (3 / 2))"
    by (simp add: exact_ops_def plane_x0_def plane_dx_def)
  moreover have "vertexFloat 2 flat_vertices 0 (- 1) 3 = XFin 0" by code_simp
  moreover have "f_neg exact_ops (plane_du exact_ops 2) = XFin (- 1)"
    by (simp add: exact_ops_def plane_du_def)
  ultimately show ?thesis
    using flat_vertices_built by simp
qed

text \<open>
  Claim C9, as amended. Every vertex, padding or interior, has the position and texture
  coordinate of its clamped coordinate on each axis, \<open>x = x0 + iBound * dx\<close>,
  \<open>u = iBound * du\<close>, \<open>z = z0 + jBound * dz\<close>, \<open>v = jBound * dv\<close>; a padding vertex coincides
  in them with the nearest interior vertex.
\<close>

theorem border_coordinates_clamped:
  assumes "createPlaneVertexData ops res skirtHeight heights = Inr buf"
    and "- 1 \<le> i" "i \<le> res" "- 1 \<le> j" "j \<le> res"
  shows "vertexFloat res buf j i 0 =
           f_add ops (plane_x0 ops) (f_mul ops (f_of_int ops (qBound 0 i (res - 1))) (plane_dx ops res)) \<and>
         vertexFloat res buf j i 3 = f_mul ops (f_of_int ops (qBound 0 i (res - 1))) (plane_du ops res) \<and>
         vertexFloat res buf j i 2 =
           f_add ops (plane_x0 ops) (f_mul ops (f_of_int ops (qBound 0 j (res - 1))) (plane_dx ops res)) \<and>
         vertexFloat res buf j i 4 = f_mul ops (f_of_int ops (qBound 0 j (res - 1))) (plane_du ops res)"
proof -
  have v: "vertexFloat res buf j i s =
           planeVertex ops res skirtHeight heights j i (nat (j * res + i)) ! s" if "s < 8" for s
    using assms that by (intro createPlaneVertexData_vertexFloat) simp_all
  show ?thesis
    by (simp add: v planeVertex_def Let_def)
qed

theorem border_coordinates_clamped_witness:
  "createPlaneVertexData exact_ops 2 (XFin 1) flat_tile = Inr flat_vertices \<and>
   - 1 \<le> (- 1 :: int) \<and> (- 1 :: int) \<le> 2 \<and> - 1 \<le> (2 :: int) \<and> (2 :: int) \<le> 2 \<and>
   vertexFloat 2 flat_vertices 2 (- 1) 0 = XFin (- (1 / 2)) \<and>
   vertexFloat 2 flat_vertices 2 (- 1) 3 = XFin 0 \<and>
   vertexFloat 2 flat_vertices 2 (- 1) 2 = XFin (1 / 2) \<and>
   vertexFloat 2 flat_vertices 2 (- 1) 4 = XFin 1"
  using border_coordinates_clamped [OF flat_vertices_built, of "- 1" 2] flat_vertices_built
  by (simp add: qBound_def exact_ops_def plane_x0_def plane_dx_def plane_du_def)

text \<open>
  Claim C10. For every cell whose four checked samples are not NaN, the two triangles
  split the quad along the diagonal from the top-left corner \<open>row * numVerticesX + col\<close>
  to the bottom-right corner \<open>(row + 1) * numVerticesX + col + 1\<close>, which is the edge
  that they share.

  The code writes the triangles (top-left, bottom-left, top-right) and (bottom-left,
  bottom-right, top-right): the edge that they share is the other diagonal. In the first
  cell of the flat tile they are \<open>(0, 4, 1)\<close> and \<open>(4, 5, 1)\<close>, and the corners 0 and 5
  are in one triangle each.
\<close>

theorem split_diagonal_counterexample:
  "createPlaneIndexData exact_ops 2 flat_tile zero_past = Inr flat_indices \<and>
   \<not> hasNoData exact_ops 0 0 flat_tile zero_past (2 + 2) (2 + 2) \<and>
   cellTriangle1 2 flat_indices 0 0 = [0, 4, 1] \<and>
   cellTriangle2 2 flat_indices 0 0 = [4, 5, 1] \<and>
   \<not> sharedEdge (cellTriangle1 2 flat_indices 0 0) (cellTriangle2 2 flat_indices 0 0) 0 5"
proof -
  have "\<not> hasNoData exact_ops 0 0 flat_tile zero_past (2 + 2) (2 + 2)" by code_simp
  moreover have "cellTriangle1 2 flat_indices 0 0 = [0, 4, 1]" by code_simp
  moreover have "cellTriangle2 2 flat_indices 0 0 = [4, 5, 1]" by code_simp
  ultimately show ?thesis
    using flat_indices_built by (simp add: sharedEdge_def)
qed

text \<open>
  Claim C10, as amended. For every cell whose four checked samples are not NaN, the
  triangles are (top-left, bottom-left, top-right) and (bottom-left, bottom-right,
  top-right), in this order of indices in every cell; they share the diagonal from the
  bottom-left corner \<open>(row + 1) * numVerticesX + col\<close> to the top-right corner
  \<open>row * numVerticesX + col + 1\<close>.
\<close>

theorem split_diagonal:
  assumes "createPlaneIndexData ops res heightMap past = Inr buf"
    and "0 \<le> i" "i \<le> res" "0 \<le> j" "j \<le> res"
    and "\<not> hasNoData ops i j heightMap past (res + 2) (res + 2)"
  shows "cellTriangle1 res buf j i =
           [word_of_int (j * (res + 2) + i), word_of_int ((j + 1) * (res + 2) + i),
            word_of_int (j * (res + 2) + i + 1)] \<and>
         cellTriangle2 res buf j i =
           [word_of_int ((j + 1) * (res + 2) + i), word_of_int ((j + 1) * (res + 2) + i + 1),
            word_of_int (j * (res + 2) + i + 1)] \<and>
         sharedEdge (cellTriangle1 res buf j i) (cellTriangle2 res buf j i)
           (word_of_int ((j + 1) * (res + 2) + i)) (word_of_int (j * (res + 2) + i + 1))"
proof -
  have buf: "buf = indexLoop ops heightMap past (res + 2) (res + 2)"
    using assms(1) by (rule createPlaneIndexData_InrD)
  have cell: "cellIndices ops heightMap past (res + 2) (res + 2) j i =
      [word_of_int (j * (res + 2) + i), word_of_int ((j + 1) * (res + 2) + i),
       word_of_int (j * (res + 2) + i + 1),
       word_of_int ((j + 1) * (res + 2) + i), word_of_int ((j + 1) * (res + 2) + i + 1),
       word_of_int (j * (res + 2) + i + 1)]"
    using assms(6) by (simp add: cellIndices_def Let_def)
  have t1: "cellTriangle1 res buf j i =
           [word_of_int (j * (res + 2) + i), word_of_int ((j + 1) * (res + 2) + i),
            word_of_int (j * (res + 2) + i + 1)]"
    using cellTriangles_indexLoop(1) [OF assms(2-5), of ops heightMap past]
    by (simp add: buf cell)
  have t2: "cellTriangle2 res buf j i =
           [word_of_int ((j + 1) * (res + 2) + i), word_of_int ((j + 1) * (res + 2) + i + 1),
            word_of_int (j * (res + 2) + i + 1)]"
    using cellTriangles_indexLoop(2) [OF assms(2-5), of ops heightMap past]
    by (simp add: buf cell)
  show ?thesis
    unfolding t1 t2 by (simp add: sharedEdge_def)
qed

theorem split_diagonal_witness:
  "createPlaneIndexData exact_ops 2 flat_tile zero_past = Inr flat_indices \<and>
   (0::int) \<le> 1 \<and> (1::int) \<le> 2 \<and>
   \<not> hasNoData exact_ops 1 1 flat_tile zero_past (2 + 2) (2 + 2) \<and>
   cellTriangle1 2 flat_indices 1 1 = [5, 9, 6] \<and>
   cellTriangle2 2 flat_indices 1 1 = [9, 10, 6] \<and>
   sharedEdge (cellTriangle1 2 flat_indices 1 1) (cellTriangle2 2 flat_indices 1 1) 9 6"
proof -
  have h: "\<not> hasNoData exact_ops 1 1 flat_tile zero_past (2 + 2) (2 + 2)" by code_simp
  show ?thesis
    using split_diagonal [OF flat_indices_built _ _ _ _ h] flat_indices_built h
    by (simp add: sharedEdge_def)
qed

end
